theory Spec2Isabelle
  imports Complex_Main
begin

section \<open>Block locator and fee estimator of web3-extensions\<close>

text \<open>
  The development embeds \<^verbatim>\<open>block\<close>, \<^verbatim>\<open>findBlock\<close> and \<^verbatim>\<open>estimateGasPrice\<close> of the
  network module, in the revision with the genesis guard (\<^verbatim>\<open>src/unnamed/part_001\<close>, lines
  138-178 and 213-250). The revision in \<^verbatim>\<open>src/src/network.ts\<close> has the same
  \<^verbatim>\<open>estimateGasPrice\<close>; its \<^verbatim>\<open>findBlock\<close> has neither the guard nor the floor of the
  average block duration.

  Conventions of the embedding:
  \<^item> JavaScript numbers are exact: block numbers and timestamps are \<^typ>\<open>int\<close>, quotients
    are \<^typ>\<open>rat\<close>. The rounding of IEEE doubles is not modelled; every concrete run
    below is one on which doubles take the same branches and give the same result.
  \<^item> The RPC client is a snapshot: a record of functions answering each query. A query that
    rejects, or that answers \<^verbatim>\<open>null\<close> (on which \<^verbatim>\<open>block\<close> throws a TypeError), is \<open>None\<close>.
  \<^item> Every call of \<^verbatim>\<open>web3().eth.getBlock\<close> is logged, in order, with the identifier
    it was given; the log is returned next to the result.
  \<^item> The search loop may run forever, so it is a partial function: \<open>None\<close> means that
    the call does not return.
\<close>

subsection \<open>Data model\<close>

text \<open>What \<^verbatim>\<open>web3().eth.getBlock\<close> is asked for: a tag or a block number.\<close>

datatype block_id = Latest | Pending | Num int

record BlockInfo =
  number :: int
  timestamp :: int
  baseFeePerGas :: "int option"

text \<open>
  The three ways \<^verbatim>\<open>findBlock\<close> fails: the two errors it throws itself (the second one
  carries the timestamp, in seconds, that its message reports) and a failure of the client.
\<close>

datatype error = FutureTimestampError | GenesisBoundaryError int | RpcFailure

record rpc =
  getBlock :: "block_id \<Rightarrow> BlockInfo option"
  getBlockNumber :: "int option"
  getFeeHistory :: "nat \<Rightarrow> block_id \<Rightarrow> nat list \<Rightarrow> string list list option"

text \<open>\<^verbatim>\<open>closestDistance\<close> starts at \<^verbatim>\<open>Number.POSITIVE_INFINITY\<close>.\<close>

datatype distance = POSITIVE_INFINITY | Finite int

fun exceeds :: "int \<Rightarrow> distance \<Rightarrow> bool" where
  "exceeds d POSITIVE_INFINITY = False"
| "exceeds d (Finite c) = (c < d)"

subsection \<open>Block locator\<close>

text \<open>
  \<^verbatim>\<open>blockHashOrBlockNumber || "latest"\<close>: an absent argument and the number \<open>0\<close> are both
  falsy in JavaScript, so both ask for the latest block.
\<close>

definition block_arg :: "int option \<Rightarrow> block_id" where
  "block_arg x = (case x of None \<Rightarrow> Latest | Some n \<Rightarrow> if n = 0 then Latest else Num n)"

definition block ::
  "rpc \<Rightarrow> int option \<Rightarrow> block_id list \<Rightarrow> block_id list \<times> (error + BlockInfo)" where
  "block c x tr =
     (let q = block_arg x
      in (tr @ [q], case getBlock c q of None \<Rightarrow> Inl RpcFailure | Some r \<Rightarrow> Inr r))"

definition avgBlockDurationSec :: "BlockInfo \<Rightarrow> BlockInfo \<Rightarrow> rat" where
  "avgBlockDurationSec currentBlock candidate =
     max 1 (of_int (timestamp currentBlock - timestamp candidate) / 10000)"

text \<open>
  The other revision of \<^verbatim>\<open>findBlock\<close> in the repository (\<^verbatim>\<open>src/src/network.ts\<close>, line 76)
  takes the quotient as it is.
\<close>

definition avgBlockDurationSec_unfloored :: "BlockInfo \<Rightarrow> BlockInfo \<Rightarrow> rat" where
  "avgBlockDurationSec_unfloored currentBlock candidate =
     of_int (timestamp currentBlock - timestamp candidate) / 10000"

text \<open>
  The \<^verbatim>\<open>while\<close> loop of \<^verbatim>\<open>findBlock\<close>. It is only ever entered with \<open>1 \<le> avg\<close>, so the
  division has no zero divisor.
\<close>

partial_function (option) findBlock_loop ::
  "rpc \<Rightarrow> rat \<Rightarrow> rat \<Rightarrow> distance \<Rightarrow> BlockInfo \<Rightarrow> block_id list
     \<Rightarrow> (block_id list \<times> (error + BlockInfo)) option" where
  "findBlock_loop c target avg closestDistance candidate tr =
     (if avg \<le> \<bar>of_int (timestamp candidate) - target\<bar> then
        (let distanceInSeconds = of_int (timestamp candidate) - target;
             estDistanceInBlocks = \<lfloor>distanceInSeconds / avg\<rfloor>
         in if exceeds \<bar>estDistanceInBlocks\<bar> closestDistance then Some (tr, Inr candidate)
            else (let targeting = number candidate - estDistanceInBlocks
                  in if targeting < 0 then
                       (case block c (Some 0) tr of
                          (tr', Inl e) \<Rightarrow> Some (tr', Inl e)
                        | (tr', Inr g) \<Rightarrow> Some (tr', Inl (GenesisBoundaryError (timestamp g))))
                     else
                       (case block c (Some targeting) tr of
                          (tr', Inl e) \<Rightarrow> Some (tr', Inl e)
                        | (tr', Inr b) \<Rightarrow>
                            findBlock_loop c target avg (Finite \<bar>estDistanceInBlocks\<bar>) b tr')))
      else Some (tr, Inr candidate))"

declare findBlock_loop.simps [code]

definition findBlock :: "rpc \<Rightarrow> int \<Rightarrow> (block_id list \<times> (error + BlockInfo)) option" where
  "findBlock c t =
     (let targetTimestampSecs = (of_int t / 1000 :: rat)
      in case block c None [] of
           (tr, Inl e) \<Rightarrow> Some (tr, Inl e)
         | (tr, Inr currentBlock) \<Rightarrow>
             if of_int (timestamp currentBlock) < targetTimestampSecs
             then Some (tr, Inl FutureTimestampError)
             else (case block c (Some (number currentBlock - 10000)) tr of
                     (tr', Inl e) \<Rightarrow> Some (tr', Inl e)
                   | (tr', Inr candidate) \<Rightarrow>
                       findBlock_loop c targetTimestampSecs
                         (avgBlockDurationSec currentBlock candidate)
                         POSITIVE_INFINITY candidate tr'))"

subsection \<open>Fee estimator\<close>

text \<open>
  Modelled from the spec: \<^verbatim>\<open>bn\<close> of \<^verbatim>\<open>./utils\<close> is missing. The spec (section 3) calls the
  fee-history rewards numeric values, and \<^verbatim>\<open>estimateGasPrice\<close> reads each of them with
  \<^verbatim>\<open>bn(r[i], 16)\<close>: a BigNumber from a numeral in the given base. The numeral is a non-empty
  string of digits below the base (\<open>0\<close>-\<open>9\<close>, then letters of either case), after an optional
  \<^verbatim>\<open>0x\<close> when the base is 16. Anything else is BigNumber's \<^verbatim>\<open>NaN\<close>, here \<open>None\<close>.
\<close>

definition digit_value :: "char \<Rightarrow> nat option" where
  "digit_value ch =
     (let n = (of_char ch :: nat)
      in if 48 \<le> n \<and> n \<le> 57 then Some (n - 48)
         else if 97 \<le> n \<and> n \<le> 122 then Some (n - 87)
         else if 65 \<le> n \<and> n \<le> 90 then Some (n - 55)
         else None)"

fun parse_digits :: "nat \<Rightarrow> nat \<Rightarrow> string \<Rightarrow> nat option" where
  "parse_digits base acc [] = Some acc"
| "parse_digits base acc (ch # cs) =
     (case digit_value ch of
        None \<Rightarrow> None
      | Some d \<Rightarrow> if d < base then parse_digits base (acc * base + d) cs else None)"

definition strip_prefix :: "nat \<Rightarrow> string \<Rightarrow> string" where
  "strip_prefix base s =
     (if base = 16 \<and> (take 2 s = ''0x'' \<or> take 2 s = ''0X'') then drop 2 s else s)"

definition bn :: "string \<Rightarrow> nat \<Rightarrow> rat option" where
  "bn s base =
     (let ds = strip_prefix base s
      in if ds = [] then None else map_option of_nat (parse_digits base 0 ds))"

text \<open>
  Modelled from the spec: \<^verbatim>\<open>median\<close> of \<^verbatim>\<open>./utils\<close> is missing. Section 4.2: the middle
  element of the ordered sequence when its length is odd, the arithmetic mean of the two
  central elements when it is even, zero when it is empty.
\<close>

definition median :: "rat list \<Rightarrow> rat" where
  "median arr =
     (if arr = [] then 0
      else (let s = sort arr; midIndex = length s div 2
            in if odd (length s) then s ! midIndex
               else (s ! (midIndex - 1) + s ! midIndex) / 2))"

text \<open>
  BigNumber's \<^verbatim>\<open>integerValue()\<close> in its default rounding mode: to the nearest integer,
  a half away from zero.
\<close>

definition integerValue :: "rat \<Rightarrow> int" where
  "integerValue x = (if 0 \<le> x then \<lfloor>x + 1 / 2\<rfloor> else - \<lfloor>- x + 1 / 2\<rfloor>)"

text \<open>A BigNumber field is \<open>None\<close> when it is \<^verbatim>\<open>NaN\<close>.\<close>

record tier =
  max_wei :: "int option"
  tip :: "int option"

record FeeEstimate =
  slow :: tier
  med :: tier
  fast :: tier
  est_baseFeePerGas :: int
  pendingBlockNumber :: int
  pendingBlockTimestamp :: int

text \<open>
  \<^verbatim>\<open>_.map(history.reward, (r) => bn(r[i], 16))\<close>. A row with no entry \<open>i\<close> is outside the
  spec (it leaves other lengths undefined); the model gives \<^verbatim>\<open>NaN\<close>, and a \<^verbatim>\<open>NaN\<close> sample
  makes the median \<^verbatim>\<open>NaN\<close>.
\<close>

definition reward_samples :: "nat \<Rightarrow> string list list \<Rightarrow> rat option list" where
  "reward_samples i reward = map (\<lambda>r. if i < length r then bn (r ! i) 16 else None) reward"

definition tier_median :: "nat \<Rightarrow> string list list \<Rightarrow> rat option" where
  "tier_median i reward = map_option median (those (reward_samples i reward))"

text \<open>
  \<^verbatim>\<open>{ max: baseFeePerGas.times(1.25).plus(m).integerValue(), tip: m.integerValue() }\<close>
\<close>

definition price_tier :: "int \<Rightarrow> rat option \<Rightarrow> tier" where
  "price_tier base m =
     \<lparr>max_wei = map_option (\<lambda>v. integerValue (of_int base * (5 / 4) + v)) m,
      tip = map_option integerValue m\<rparr>"

text \<open>
  One attempt of the closure that \<^verbatim>\<open>keepTrying\<close> runs. The client is a snapshot, so a
  retry repeats the attempt and a failure of the pending block or of the block number
  comes out as the failure of the call. A failing fee history is caught and replaced by
  an empty reward list. \<^verbatim>\<open>pendingBlock.baseFeePerGas || 1e8\<close>: an absent fee and the
  fee \<open>0\<close> are both falsy.
\<close>

definition estimateGasPrice :: "rpc \<Rightarrow> nat list \<Rightarrow> nat \<Rightarrow> error + FeeEstimate" where
  "estimateGasPrice w3 percentiles len =
     (case getBlock w3 Pending of
        None \<Rightarrow> Inl RpcFailure
      | Some pendingBlock \<Rightarrow>
          (case getBlockNumber w3 of
             None \<Rightarrow> Inl RpcFailure
           | Some latestBlockNumber \<Rightarrow>
               (let reward = (case getFeeHistory w3 len Pending percentiles of
                                None \<Rightarrow> [] | Some h \<Rightarrow> h);
                    base = (case baseFeePerGas pendingBlock of
                              None \<Rightarrow> 100000000
                            | Some v \<Rightarrow> if v = 0 then 100000000 else v)
                in Inr \<lparr>slow = price_tier base (tier_median 0 reward),
                        med = price_tier base (tier_median 1 reward),
                        fast = price_tier base (tier_median 2 reward),
                        est_baseFeePerGas = base,
                        pendingBlockNumber = latestBlockNumber + 1,
                        pendingBlockTimestamp = timestamp pendingBlock\<rparr>)))"

subsection \<open>Notions used to state the properties\<close>

text \<open>A query is harmless when it does not name a negative block number.\<close>

fun nonneg_query :: "block_id \<Rightarrow> bool" where
  "nonneg_query (Num n) = (0 \<le> n)"
| "nonneg_query _ = True"




subsection \<open>Example clients\<close>

text \<open>
  A chain of \<open>h + 1\<close> blocks, block \<open>n\<close> stamped \<open>g + d * n\<close>: genesis time \<open>g\<close>, one
  block every \<open>d\<close> seconds. It answers no other block number.
\<close>

definition blk :: "int \<Rightarrow> int \<Rightarrow> BlockInfo" where
  "blk n ts = \<lparr>number = n, timestamp = ts, baseFeePerGas = None\<rparr>"

definition regular_chain :: "int \<Rightarrow> int \<Rightarrow> int \<Rightarrow> rpc" where
  "regular_chain h g d =
     \<lparr>getBlock = (\<lambda>q. case q of
          Latest \<Rightarrow> Some (blk h (g + d * h))
        | Pending \<Rightarrow> None
        | Num n \<Rightarrow> if 0 \<le> n \<and> n \<le> h then Some (blk n (g + d * n)) else None),
      getBlockNumber = Some h,
      getFeeHistory = (\<lambda>_ _ _. None)\<rparr>"

text \<open>
  A client for the fee estimator: the pending block's base fee, the latest block number
  and the answer of the fee-history call (\<open>None\<close> when it fails).
\<close>

definition fee_client :: "int option \<Rightarrow> int \<Rightarrow> string list list option \<Rightarrow> rpc" where
  "fee_client bf n h =
     \<lparr>getBlock = (\<lambda>q. case q of
          Pending \<Rightarrow> Some \<lparr>number = n + 1, timestamp = 1700000000, baseFeePerGas = bf\<rparr>
        | _ \<Rightarrow> None),
      getBlockNumber = Some n,
      getFeeHistory = (\<lambda>_ _ _. h)\<rparr>"

section \<open>Properties of the block locator\<close>

subsection \<open>The steps of the search\<close>

lemma block_eq:
  "block c x tr =
     (tr @ [block_arg x],
      case getBlock c (block_arg x) of None \<Rightarrow> Inl RpcFailure | Some r \<Rightarrow> Inr r)"
  by (simp add: block_def Let_def)

lemma nonneg_block_arg: "0 \<le> n \<Longrightarrow> nonneg_query (block_arg (Some n))"
  by (simp add: block_arg_def)


lemma findBlock_loop_diverging:
  assumes "avg \<le> \<bar>of_int (timestamp cand) - target\<bar>"
    and "exceeds \<bar>\<lfloor>(of_int (timestamp cand) - target) / avg\<rfloor>\<bar> cl"
  shows "findBlock_loop c target avg cl cand tr = Some (tr, Inr cand)"
  using assms by (subst findBlock_loop.simps) (simp add: Let_def)


lemma findBlock_loop_genesis:
  assumes "avg \<le> \<bar>of_int (timestamp cand) - target\<bar>"
    and "est = \<lfloor>(of_int (timestamp cand) - target) / avg\<rfloor>"
    and "\<not> exceeds \<bar>est\<bar> cl"
    and "number cand - est < 0"
    and "getBlock c Latest = Some head"
  shows "findBlock_loop c target avg cl cand tr
       = Some (tr @ [Latest], Inl (GenesisBoundaryError (timestamp head)))"
  using assms by (subst findBlock_loop.simps) (simp add: Let_def block_eq block_arg_def)

lemma findBlock_loop_queries:
  assumes "findBlock_loop c target avg cl cand tr = Some y"
  shows "\<exists>ext. fst y = tr @ ext \<and> list_all nonneg_query ext"
proof (rule findBlock_loop.raw_induct
    [where P = "\<lambda>c target avg cl cand tr y. \<exists>ext. fst y = tr @ ext \<and> list_all nonneg_query ext",
      OF _ assms])
  fix loop :: "rpc \<Rightarrow> rat \<Rightarrow> rat \<Rightarrow> distance \<Rightarrow> BlockInfo \<Rightarrow> block_id list
     \<Rightarrow> (block_id list \<times> (error + BlockInfo)) option"
    and c target avg cl cand tr y
  assume IH: "\<And>c target avg cl cand tr y. loop c target avg cl cand tr = Some y
     \<Longrightarrow> \<exists>ext. fst y = tr @ ext \<and> list_all nonneg_query ext"
  assume body: "(if avg \<le> \<bar>of_int (timestamp cand) - target\<bar> then
        (let distanceInSeconds = of_int (timestamp cand) - target;
             estDistanceInBlocks = \<lfloor>distanceInSeconds / avg\<rfloor>
         in if exceeds \<bar>estDistanceInBlocks\<bar> cl then Some (tr, Inr cand)
            else (let targeting = number cand - estDistanceInBlocks
                  in if targeting < 0 then
                       (case block c (Some 0) tr of
                          (tr', Inl e) \<Rightarrow> Some (tr', Inl e)
                        | (tr', Inr g) \<Rightarrow> Some (tr', Inl (GenesisBoundaryError (timestamp g))))
                     else
                       (case block c (Some targeting) tr of
                          (tr', Inl e) \<Rightarrow> Some (tr', Inl e)
                        | (tr', Inr b) \<Rightarrow>
                            loop c target avg (Finite \<bar>estDistanceInBlocks\<bar>) b tr')))
      else Some (tr, Inr cand)) = Some y"
  define est where "est = \<lfloor>(of_int (timestamp cand) - target) / avg\<rfloor>"
  show "\<exists>ext. fst y = tr @ ext \<and> list_all nonneg_query ext"
  proof (cases "avg \<le> \<bar>of_int (timestamp cand) - target\<bar> \<and> \<not> exceeds \<bar>est\<bar> cl")
    case False
    with body have "y = (tr, Inr cand)"
      by (auto simp: Let_def est_def split: if_splits)
    then have "fst y = tr @ [] \<and> list_all nonneg_query []" by simp
    then show ?thesis by blast
  next
    case True
    show ?thesis
    proof (cases "number cand - est < 0")
      case neg: True
      from body True neg have "fst y = tr @ [block_arg (Some 0)]"
        by (auto simp: Let_def est_def block_eq split: option.splits)
      then have "fst y = tr @ [Latest] \<and> list_all nonneg_query [Latest]"
        by (simp add: block_arg_def)
      then show ?thesis by blast
    next
      case nonneg: False
      define q where "q = block_arg (Some (number cand - est))"
      have q: "nonneg_query q"
        unfolding q_def using nonneg by (intro nonneg_block_arg) simp
      show ?thesis
      proof (cases "getBlock c q")
        case None
        with body True nonneg have "fst y = tr @ [q]"
          by (auto simp: Let_def est_def block_eq q_def)
        with q have "fst y = tr @ [q] \<and> list_all nonneg_query [q]" by simp
        then show ?thesis by blast
      next
        case (Some b')
        with body True nonneg have "loop c target avg (Finite \<bar>est\<bar>) b' (tr @ [q]) = Some y"
          by (simp add: Let_def est_def block_eq q_def)
        from IH [OF this] obtain ext where "fst y = (tr @ [q]) @ ext" "list_all nonneg_query ext"
          by blast
        with q have "fst y = tr @ (q # ext) \<and> list_all nonneg_query (q # ext)" by simp
        then show ?thesis by blast
      qed
    qed
  qed
qed

subsection \<open>The queries of a whole call\<close>

lemma block_arg_None: "block_arg None = Latest"
  by (simp add: block_arg_def)

lemma findBlock_head_failure:
  assumes "getBlock c Latest = None"
  shows "findBlock c t = Some ([Latest], Inl RpcFailure)"
  using assms by (simp add: findBlock_def block_eq block_arg_None)

lemma findBlock_searching:
  assumes "getBlock c Latest = Some head"
    and "\<not> of_int (timestamp head) < (of_int t / 1000 :: rat)"
  shows "findBlock c t =
     (case getBlock c (block_arg (Some (number head - 10000))) of
        None \<Rightarrow> Some ([Latest, block_arg (Some (number head - 10000))], Inl RpcFailure)
      | Some candidate \<Rightarrow>
          findBlock_loop c (of_int t / 1000) (avgBlockDurationSec head candidate)
            POSITIVE_INFINITY candidate [Latest, block_arg (Some (number head - 10000))])"
  using assms by (simp add: findBlock_def block_eq block_arg_None split: option.splits)

lemma findBlock_in_future:
  assumes "getBlock c Latest = Some currentBlock"
    and "(of_int (timestamp currentBlock) :: rat) < of_int t / 1000"
  shows "findBlock c t = Some ([Latest], Inl FutureTimestampError)"
  using assms by (simp add: findBlock_def block_eq block_arg_None)

lemma findBlock_search_log:
  assumes "findBlock c t = Some (tr, r)"
    and "getBlock c Latest = Some head"
    and "\<not> of_int (timestamp head) < (of_int t / 1000 :: rat)"
  shows "\<exists>ext. tr = [Latest, block_arg (Some (number head - 10000))] @ ext
           \<and> list_all nonneg_query ext"
proof -
  define q where "q = block_arg (Some (number head - 10000))"
  note unf = findBlock_searching [OF assms(2,3), folded q_def]
  have "\<exists>ext. tr = [Latest, q] @ ext \<and> list_all nonneg_query ext"
  proof (cases "getBlock c q")
    case None
    with assms(1) unf have "tr = [Latest, q] @ [] \<and> list_all nonneg_query []" by simp
    then show ?thesis by blast
  next
    case (Some candidate)
    with assms(1) unf
    have "findBlock_loop c (of_int t / 1000) (avgBlockDurationSec head candidate)
            POSITIVE_INFINITY candidate [Latest, q] = Some (tr, r)"
      by simp
    from findBlock_loop_queries [OF this] show ?thesis by simp
  qed
  then show ?thesis unfolding q_def .
qed

lemma findBlock_queries_after_reference:
  assumes "findBlock c t = Some (tr, r)"
  shows "list_all nonneg_query (drop 2 tr)"
proof (cases "getBlock c Latest")
  case None
  with assms show ?thesis by (auto simp: findBlock_head_failure)
next
  case (Some head)
  show ?thesis
  proof (cases "of_int (timestamp head) < (of_int t / 1000 :: rat)")
    case True
    from findBlock_in_future [OF Some True] assms show ?thesis by auto
  next
    case False
    from findBlock_search_log [OF assms Some False] show ?thesis by auto
  qed
qed

lemma findBlock_queries_long_chain:
  assumes "findBlock c t = Some (tr, r)"
    and "getBlock c Latest = Some head" and "10000 \<le> number head"
  shows "list_all nonneg_query tr"
proof (cases "of_int (timestamp head) < (of_int t / 1000 :: rat)")
  case True
  from findBlock_in_future [OF assms(2) True] assms(1) show ?thesis by auto
next
  case False
  have "nonneg_query (block_arg (Some (number head - 10000)))"
    using assms(3) by (intro nonneg_block_arg) simp
  with findBlock_search_log [OF assms(1,2) False] show ?thesis by auto
qed

lemma findBlock_reference_query:
  assumes "findBlock c t = Some (tr, r)"
    and "getBlock c Latest = Some head"
    and "\<not> of_int (timestamp head) < (of_int t / 1000 :: rat)"
    and "number head \<noteq> 10000"
  shows "take 2 tr = [Latest, Num (number head - 10000)]"
  using findBlock_search_log [OF assms(1-3)] assms(4) by (auto simp: block_arg_def)

subsection \<open>Example chains\<close>


lemmas run_simps =
  findBlock_def block_eq block_arg_def regular_chain_def blk_def avgBlockDurationSec_def
  findBlock_loop.simps

subsection \<open>Negative block numbers\<close>

text \<open>
  C1: the guard inside the loop keeps every query of the search at a non-negative block
  number (\<open>findBlock_queries_after_reference\<close>, \<open>findBlock_queries_long_chain\<close>), but the
  query for the reference block comes before it and has no guard. On a chain of six
  blocks (head number 5) \<^verbatim>\<open>findBlock(0)\<close> asks the client for block \<open>- 9995\<close>, and what
  it fails with is the client's failure, not the genesis error.
\<close>

theorem findBlock_short_chain_negative_query:
  "findBlock (regular_chain 5 0 12) 0 = Some ([Latest, Num (- 9995)], Inl RpcFailure)"
  by (simp add: run_simps)

text \<open>
  Where the guard fires, the timestamp in the message comes from \<^verbatim>\<open>block(0)\<close>, which asks
  for the latest block: with genesis at 1000000 and the head at 1240000, the error
  reports 1240000.
\<close>

lemma findBlock_genesis_error_reports_head:
  "findBlock (regular_chain 20000 1000000 12) 0
     = Some ([Latest, Num 10000, Latest], Inl (GenesisBoundaryError 1240000))"
  by (simp add: run_simps)

subsection \<open>Future timestamps\<close>

text \<open>
  C2: when the head block is fetched and the target, converted to seconds, lies strictly
  after the head's timestamp, \<^verbatim>\<open>findBlock\<close> fails with the future-timestamp error, and the
  query for the head is the only one it has made.
\<close>

theorem findBlock_future:
  assumes "getBlock c Latest = Some currentBlock"
    and "(of_int (timestamp currentBlock) :: rat) < of_int t / 1000"
  shows "findBlock c t = Some ([Latest], Inl FutureTimestampError)"
  using assms by (simp add: findBlock_def block_eq block_arg_None)

theorem findBlock_future_witness:
  "getBlock (regular_chain 20000 0 12) Latest = Some (blk 20000 240000)
   \<and> (of_int (timestamp (blk 20000 240000)) :: rat) < of_int 240000001 / 1000
   \<and> findBlock (regular_chain 20000 0 12) 240000001 = Some ([Latest], Inl FutureTimestampError)"
proof -
  have h1: "getBlock (regular_chain 20000 0 12) Latest = Some (blk 20000 240000)"
    by (simp add: regular_chain_def)
  have h2: "(of_int (timestamp (blk 20000 240000)) :: rat) < of_int 240000001 / 1000"
    by (simp add: blk_def)
  from findBlock_future [OF h1 h2] h1 h2 show ?thesis by blast
qed

subsection \<open>The average block duration\<close>

text \<open>
  The value that the search uses is never below one second, and unless the head is
  block 10000 the reference query names the block 10000 below the head
  (\<open>findBlock_reference_query\<close>).
\<close>

lemma avgBlockDurationSec_ge_1: "1 \<le> avgBlockDurationSec currentBlock candidate"
  by (simp add: avgBlockDurationSec_def)

text \<open>
  C3: when the head is block 10000, the reference block should be block 0, but
  \<^verbatim>\<open>block(0)\<close> asks for the latest block. The reference is then the head itself and the
  average is the floor 1, whatever the block times are: on a chain with a block every 12
  seconds, the search for the time of block 5000 starts from the head with steps of one
  block per second and ends in the genesis error.
\<close>

theorem findBlock_reference_at_head_10000:
  "findBlock (regular_chain 10000 0 12) 60000000
     = Some ([Latest, Latest, Latest], Inl (GenesisBoundaryError 120000))"
  by (simp add: run_simps)

text \<open>The revision without the floor: two blocks per second give half a second.\<close>

lemma avgBlockDurationSec_unfloored_below_1:
  "avgBlockDurationSec_unfloored (blk 20000 5000) (blk 10000 0) = 1 / 2"
  by (simp add: avgBlockDurationSec_unfloored_def blk_def)

subsection \<open>The search loop\<close>

text \<open>
  The loop returns its candidate once that is within one average block duration of the
  target (\<open>findBlock_loop_converged\<close>), returns it without a query when the estimated
  distance has grown (\<open>findBlock_loop_diverging\<close>), and otherwise moves by the floor of the
  quotient to a positive block number (\<open>findBlock_loop_step\<close>).

  C4: a step that lands on block number 0 does not fetch block 0 but the latest block.
  On a chain with a block every 12 seconds and genesis at time 0, the search for time 0
  goes from block 10000 (distance 120000 seconds, 10000 blocks) to the head, block 20000,
  and returns it, 240000 seconds from the target.
\<close>

theorem findBlock_step_to_block_0:
  "findBlock (regular_chain 20000 0 12) 0
     = Some ([Latest, Num 10000, Latest], Inr (blk 20000 240000))"
  by (simp add: run_simps)

subsection \<open>The head's own timestamp\<close>





section \<open>Properties of the fee estimator\<close>

lemma median_Nil: "median [] = 0"
  by (simp add: median_def)

lemma tier_median_Nil: "tier_median i [] = Some 0"
  by (simp add: tier_median_def reward_samples_def median_Nil)


text \<open>Rounding leaves an integer as it is: an odd number of integer samples has its
  median as tip.\<close>

lemma integerValue_of_int: "integerValue (of_int z) = z"
  by (simp add: integerValue_def floor_eq_iff)

lemmas fee_simps =
  fee_client_def reward_samples_def bn_def strip_prefix_def digit_value_def

subsection \<open>A failing fee history\<close>



text \<open>The same run, evaluated: 1000000007 * 1.25 = 1250000008.75 is rounded to 1250000009.\<close>

lemma estimateGasPrice_no_fee_history_run:
  "estimateGasPrice (fee_client (Some 1000000007) 41 None) [10, 50, 90] 5
     = Inr \<lparr>slow = \<lparr>max_wei = Some 1250000009, tip = Some 0\<rparr>,
            med = \<lparr>max_wei = Some 1250000009, tip = Some 0\<rparr>,
            fast = \<lparr>max_wei = Some 1250000009, tip = Some 0\<rparr>,
            est_baseFeePerGas = 1000000007,
            pendingBlockNumber = 42,
            pendingBlockTimestamp = 1700000000\<rparr>"
  by (simp add: estimateGasPrice_def fee_client_def tier_median_Nil price_tier_def
        integerValue_def floor_eq_iff)

subsection \<open>The pending block number\<close>

text \<open>
  C7: whenever the pending block and the latest block number are fetched,
  \<^verbatim>\<open>estimateGasPrice\<close> returns a record whose \<^verbatim>\<open>pendingBlockNumber\<close> is the latest block
  number plus 1, whatever the pending block and the fee history are.
\<close>

theorem estimateGasPrice_pendingBlockNumber:
  assumes "getBlock w3 Pending = Some pendingBlock"
    and "getBlockNumber w3 = Some latestBlockNumber"
  shows "\<exists>r. estimateGasPrice w3 percentiles len = Inr r
           \<and> pendingBlockNumber r = latestBlockNumber + 1"
  using assms by (simp add: estimateGasPrice_def Let_def)

theorem estimateGasPrice_pendingBlockNumber_witness:
  "getBlock (fee_client (Some 30) 17 (Some [[''a'', ''b'', ''c'']])) Pending
     = Some \<lparr>number = 18, timestamp = 1700000000, baseFeePerGas = Some 30\<rparr>
   \<and> getBlockNumber (fee_client (Some 30) 17 (Some [[''a'', ''b'', ''c'']])) = Some 17
   \<and> (\<exists>r. estimateGasPrice (fee_client (Some 30) 17 (Some [[''a'', ''b'', ''c'']])) [10, 50, 90] 5
             = Inr r
           \<and> pendingBlockNumber r = 17 + 1)"
proof -
  let ?w3 = "fee_client (Some 30) 17 (Some [[''a'', ''b'', ''c'']])"
  have p: "getBlock ?w3 Pending
         = Some \<lparr>number = 18, timestamp = 1700000000, baseFeePerGas = Some 30\<rparr>"
    by (simp add: fee_client_def)
  have n: "getBlockNumber ?w3 = Some 17"
    by (simp add: fee_client_def)
  from estimateGasPrice_pendingBlockNumber [OF p n, of "[10, 50, 90]" 5] p n
  show ?thesis by blast
qed

subsection \<open>Tips as medians\<close>

text \<open>
  C8: when the fee history is fetched and every sample at positions 0, 1 and 2 is a
  number, the tip of the slow, medium and fast tier is the median, over the sampled
  blocks, of the samples at position 0, 1 and 2, made an integer by \<^verbatim>\<open>integerValue()\<close>.
\<close>

theorem estimateGasPrice_tips:
  assumes "getBlock w3 Pending = Some pendingBlock"
    and "getBlockNumber w3 = Some latestBlockNumber"
    and "getFeeHistory w3 len Pending percentiles = Some reward"
    and "those (reward_samples 0 reward) = Some s0"
    and "those (reward_samples 1 reward) = Some s1"
    and "those (reward_samples 2 reward) = Some s2"
  shows "\<exists>r. estimateGasPrice w3 percentiles len = Inr r
           \<and> tip (slow r) = Some (integerValue (median s0))
           \<and> tip (med r) = Some (integerValue (median s1))
           \<and> tip (fast r) = Some (integerValue (median s2))"
  using assms
  by (simp add: estimateGasPrice_def Let_def tier_median_def price_tier_def)

text \<open>The samples \<open>[[1,2,3],[3,4,5],[5,6,7]]\<close> for the percentiles \<open>[10,50,90]\<close> give the
  tips 3, 4 and 5.\<close>

theorem estimateGasPrice_tips_witness:
  "\<exists>r. estimateGasPrice
          (fee_client (Some 1000000007) 41
             (Some [[''1'', ''2'', ''3''], [''3'', ''4'', ''5''], [''5'', ''6'', ''7'']]))
          [10, 50, 90] 5 = Inr r
       \<and> tip (slow r) = Some 3 \<and> tip (med r) = Some 4 \<and> tip (fast r) = Some 5"
proof -
  let ?reward = "[[''1'', ''2'', ''3''], [''3'', ''4'', ''5''], [''5'', ''6'', ''7'']]"
  let ?w3 = "fee_client (Some 1000000007) 41 (Some ?reward)"
  have p: "getBlock ?w3 Pending
         = Some \<lparr>number = 42, timestamp = 1700000000, baseFeePerGas = Some 1000000007\<rparr>"
    by (simp add: fee_client_def)
  have n: "getBlockNumber ?w3 = Some 41"
    by (simp add: fee_client_def)
  have h: "getFeeHistory ?w3 5 Pending [10, 50, 90] = Some ?reward"
    by (simp add: fee_client_def)
  have s0: "those (reward_samples 0 ?reward) = Some [1, 3, 5]"
    by (simp add: fee_simps)
  have s1: "those (reward_samples 1 ?reward) = Some [2, 4, 6]"
    by (simp add: fee_simps)
  have s2: "those (reward_samples 2 ?reward) = Some [3, 5, 7]"
    by (simp add: fee_simps)
  have m: "integerValue (median [1, 3, 5]) = 3" "integerValue (median [2, 4, 6]) = 4"
    "integerValue (median [3, 5, 7]) = 5"
    by (simp_all add: median_def integerValue_def floor_eq_iff)
  from estimateGasPrice_tips [OF p n h s0 s1 s2] show ?thesis
    by (simp add: m)
qed

subsection \<open>The default base fee\<close>

text \<open>
  C9: when the pending block has no \<^verbatim>\<open>baseFeePerGas\<close>, \<^verbatim>\<open>estimateGasPrice\<close> still returns a
  record; its \<^verbatim>\<open>baseFeePerGas\<close> is 100000000 and its three tiers are computed from
  100000000.
\<close>

theorem estimateGasPrice_default_base_fee:
  assumes "getBlock w3 Pending = Some pendingBlock"
    and "baseFeePerGas pendingBlock = None"
    and "getBlockNumber w3 = Some latestBlockNumber"
    and "reward = (case getFeeHistory w3 len Pending percentiles of None \<Rightarrow> [] | Some h \<Rightarrow> h)"
  shows "\<exists>r. estimateGasPrice w3 percentiles len = Inr r
           \<and> est_baseFeePerGas r = 100000000
           \<and> slow r = price_tier 100000000 (tier_median 0 reward)
           \<and> med r = price_tier 100000000 (tier_median 1 reward)
           \<and> fast r = price_tier 100000000 (tier_median 2 reward)"
  using assms
  by (simp add: estimateGasPrice_def Let_def)

theorem estimateGasPrice_default_base_fee_witness:
  "\<exists>r. estimateGasPrice (fee_client None 41 (Some [[''1'', ''2'', ''3'']])) [10, 50, 90] 5 = Inr r
       \<and> est_baseFeePerGas r = 100000000
       \<and> slow r = \<lparr>max_wei = Some 125000001, tip = Some 1\<rparr>
       \<and> med r = \<lparr>max_wei = Some 125000002, tip = Some 2\<rparr>
       \<and> fast r = \<lparr>max_wei = Some 125000003, tip = Some 3\<rparr>"
proof -
  let ?w3 = "fee_client None 41 (Some [[''1'', ''2'', ''3'']])"
  let ?pb = "\<lparr>number = 42, timestamp = 1700000000, baseFeePerGas = None\<rparr>"
  have p: "getBlock ?w3 Pending = Some ?pb"
    by (simp add: fee_client_def)
  have b: "baseFeePerGas ?pb = None" by simp
  have n: "getBlockNumber ?w3 = Some 41"
    by (simp add: fee_client_def)
  have h: "[[''1'', ''2'', ''3'']]
         = (case getFeeHistory ?w3 5 Pending [10, 50, 90] of None \<Rightarrow> [] | Some h \<Rightarrow> h)"
    by (simp add: fee_client_def)
  have t: "price_tier 100000000 (tier_median 0 [[''1'', ''2'', ''3'']])
             = \<lparr>max_wei = Some 125000001, tip = Some 1\<rparr>"
    "price_tier 100000000 (tier_median 1 [[''1'', ''2'', ''3'']])
             = \<lparr>max_wei = Some 125000002, tip = Some 2\<rparr>"
    "price_tier 100000000 (tier_median 2 [[''1'', ''2'', ''3'']])
             = \<lparr>max_wei = Some 125000003, tip = Some 3\<rparr>"
    by (simp_all add: price_tier_def tier_median_def fee_simps median_def integerValue_def
          floor_eq_iff)
  from estimateGasPrice_default_base_fee [OF p b n h] show ?thesis
    by (simp only: t)
qed

subsection \<open>Rewards are read in base 16\<close>





text \<open>A whole call on one sampled block: \<^verbatim>\<open>"10"\<close> and \<^verbatim>\<open>"0x10"\<close> are 16, \<^verbatim>\<open>"ff"\<close> is 255.\<close>

lemma estimateGasPrice_hex_sample:
  "\<exists>r. estimateGasPrice (fee_client (Some 8) 41 (Some [[''10'', ''0x10'', ''ff'']])) [10, 50, 90] 5
          = Inr r
       \<and> tip (slow r) = Some 16 \<and> tip (med r) = Some 16 \<and> tip (fast r) = Some 255
       \<and> max_wei (slow r) = Some 26"
  by (simp add: estimateGasPrice_def tier_median_def price_tier_def fee_simps median_def
        integerValue_def floor_eq_iff)

end
